theory Spec2Isabelle
  imports Complex_Main "HOL-Library.Word"
begin

section \<open>The object storage uploader of plugin-node (services/awsS3.ts)\<close>

text \<open>
  The class \<open>AwsS3Service\<close> is embedded as state-passing functions. Every method is
  \<open>async\<close>: its promise either rejects with a thrown value (\<open>Inl\<close>) or resolves
  (\<open>Inr\<close>). The fields of the instance, the requests issued to the storage backend and
  the console output form the state that each method receives and returns. What the
  platform and the SDK answer (file system, clock, \<open>path\<close>, \<open>JSON.stringify\<close>,
  \<open>process.env\<close>, the S3 client and the presigner) is a parameter of every method.
  Strings are sequences of code units below 256.
\<close>

subsection \<open>JavaScript values\<close>

text \<open>A thrown value: an instance of \<open>Error\<close> with its message, or anything else.\<close>

datatype exn = Error string | NonError

type_synonym buffer = "8 word list"

text \<open>Numbers are doubles: the two special zeros and NaN are kept apart from the finite
  values, which are given by their rational value.\<close>

datatype number = NaN | PlusInfinity | MinusInfinity | MinusZero | Finite rat

datatype jsvalue =
    JUndefined
  | JNull
  | JBoolean bool
  | JNumber number
  | JBigInt int
  | JString string
  | JSymbol
  | JFunction
  | JArray "jsvalue list"
  | JObject "(string \<times> jsvalue) list"

text \<open>ECMAScript \<open>ToBoolean\<close>, which \<open>!x\<close>, \<open>x || y\<close> and \<open>if (x)\<close> apply.\<close>

fun ToBoolean :: "jsvalue \<Rightarrow> bool" where
  "ToBoolean JUndefined = False"
| "ToBoolean JNull = False"
| "ToBoolean (JBoolean b) = b"
| "ToBoolean (JNumber NaN) = False"
| "ToBoolean (JNumber MinusZero) = False"
| "ToBoolean (JNumber (Finite r)) = (r \<noteq> 0)"
| "ToBoolean (JNumber PlusInfinity) = True"
| "ToBoolean (JNumber MinusInfinity) = True"
| "ToBoolean (JBigInt i) = (i \<noteq> 0)"
| "ToBoolean (JString s) = (s \<noteq> [])"
| "ToBoolean JSymbol = True"
| "ToBoolean JFunction = True"
| "ToBoolean (JArray xs) = True"
| "ToBoolean (JObject ps) = True"

text \<open>A value of type \<open>string | null | undefined\<close> is \<open>None\<close> when it is absent.
  \<open>falsy\<close> is \<open>!x\<close> on such a value, \<open>logical_or\<close> is \<open>x || d\<close>, \<open>nullish\<close> is
  \<open>x ?? d\<close>, and \<open>interpolate\<close> is what a template literal writes for it.\<close>

definition falsy :: "string option \<Rightarrow> bool" where
  "falsy x = (case x of None \<Rightarrow> True | Some s \<Rightarrow> s = [])"

definition logical_or :: "string option \<Rightarrow> string \<Rightarrow> string" where
  "logical_or x d = (if falsy x then d else the x)"

definition nullish :: "string option \<Rightarrow> string \<Rightarrow> string" where
  "nullish x d = (case x of None \<Rightarrow> d | Some s \<Rightarrow> s)"

definition interpolate :: "string option \<Rightarrow> string" where
  "interpolate x = (case x of None \<Rightarrow> ''undefined'' | Some s \<Rightarrow> s)"

text \<open>The decimal digits a template literal writes for a non-negative integer
  (\<open>Date.now()\<close> is far below 1e21, where the exponent notation starts).\<close>

definition digit :: "nat \<Rightarrow> char" where
  "digit d = ''0123456789'' ! d"

fun string_of_nat :: "nat \<Rightarrow> string" where
  "string_of_nat n =
     (if n < 10 then [digit n]
      else string_of_nat (n div 10) @ [digit (n mod 10)])"

declare string_of_nat.simps [simp del]

text \<open>\<open>s.replaceAll(pat, rep)\<close> for a non-empty pattern string: the occurrences are
  found from left to right, each search starting after the previous match.\<close>

fun replaceAll :: "string \<Rightarrow> string \<Rightarrow> string \<Rightarrow> string" where
  "replaceAll pat rep [] = []"
| "replaceAll pat rep (c # cs) =
     (if pat \<noteq> [] \<and> take (length pat) (c # cs) = pat
      then rep @ replaceAll pat rep (drop (length pat - 1) cs)
      else c # replaceAll pat rep cs)"

text \<open>\<open>s.replace(/\/+/g, '/')\<close>: every maximal run of slashes becomes one slash.\<close>

function replace_slash_runs :: "string \<Rightarrow> string" where
  "replace_slash_runs [] = []"
| "replace_slash_runs (c # cs) =
     (if c = CHR ''/''
      then CHR ''/'' # replace_slash_runs (dropWhile (\<lambda>x. x = CHR ''/'') cs)
      else c # replace_slash_runs cs)"
  by pat_completeness auto
termination
  by (relation "measure length") (auto simp: length_dropWhile_le less_Suc_eq_le)

text \<open>\<open>String.prototype.toLowerCase\<close> on code units below 256: the letters A-Z and
  the Latin-1 capitals other than the multiplication sign move up by 32.\<close>

definition toLowerCase_unit :: "char \<Rightarrow> char" where
  "toLowerCase_unit c =
     (let n = (of_char c :: nat)
      in if (65 \<le> n \<and> n \<le> 90) \<or> (192 \<le> n \<and> n \<le> 222 \<and> n \<noteq> 215)
         then char_of (n + 32) else c)"

definition toLowerCase :: "string \<Rightarrow> string" where
  "toLowerCase s = map toLowerCase_unit s"

subsection \<open>Results, commands and the service instance\<close>

record UploadResult =
  success :: bool
  url :: "string option"
  error :: "string option"

record JsonUploadResult = UploadResult +
  key :: "string option"

record S3Client =
  region :: string
  accessKeyId :: string
  secretAccessKey :: string

datatype body = BufferBody buffer | StringBody string | UndefinedBody

datatype command =
    PutObjectCommand (Bucket: "string option") (Key: string) (Body: body) (ContentType: string)
  | GetObjectCommand (Bucket: "string option") (Key: string)

text \<open>A request to the storage backend: a command sent through the client, or a
  presigning request with its expiry in seconds.\<close>

datatype backend_call =
    Send S3Client command
  | GetSignedUrl "S3Client option" command int

record IAgentRuntime =
  getSetting :: "string \<Rightarrow> string option"

text \<open>The private fields of the class. A field that was never assigned is \<open>None\<close>.\<close>

record AwsS3Service =
  s3Client :: "S3Client option"
  bucket :: "string option"
  fileUploadPath :: "string option"
  runtime :: "IAgentRuntime option"

record world =
  service :: AwsS3Service
  calls :: "backend_call list"
  console :: "string list"

text \<open>What the platform and the SDK answer during one call.\<close>

record env =
  existsSync :: "string \<Rightarrow> bool"
  readFileSync :: "string \<Rightarrow> exn + buffer"
  basename :: "string \<Rightarrow> string"
  extname :: "string \<Rightarrow> string"
  Date_now :: nat
  JSON_stringify :: "jsvalue \<Rightarrow> nat \<Rightarrow> exn + string option"
  process_env_AWS_REGION :: "string option"
  send_response :: "S3Client \<Rightarrow> command \<Rightarrow> exn option"
  getSignedUrl_response :: "S3Client option \<Rightarrow> command \<Rightarrow> int \<Rightarrow> exn + string"

subsection \<open>The calls into the SDK\<close>

text \<open>\<open>this.s3Client.send(cmd)\<close>. Reading \<open>send\<close> of a client that was never assigned
  throws a TypeError before anything is sent (the message is the one V8 gives).\<close>

definition s3Client_send :: "env \<Rightarrow> command \<Rightarrow> world \<Rightarrow> (exn + unit) \<times> world" where
  "s3Client_send e cmd w =
     (case s3Client (service w) of
        None \<Rightarrow> (Inl (Error ''Cannot read properties of undefined (reading 'send')''), w)
      | Some client \<Rightarrow>
          (let w1 = w\<lparr>calls := calls w @ [Send client cmd]\<rparr>
           in case send_response e client cmd of
                Some x \<Rightarrow> (Inl x, w1)
              | None \<Rightarrow> (Inr (), w1)))"

text \<open>\<open>getSignedUrl(this.s3Client, cmd, { expiresIn })\<close>.\<close>

definition getSignedUrl :: "env \<Rightarrow> command \<Rightarrow> int \<Rightarrow> world \<Rightarrow> (exn + string) \<times> world" where
  "getSignedUrl e cmd expiresIn w =
     (getSignedUrl_response e (s3Client (service w)) cmd expiresIn,
      w\<lparr>calls := calls w @ [GetSignedUrl (s3Client (service w)) cmd expiresIn]\<rparr>)"

subsection \<open>initialize\<close>

definition initialize :: "IAgentRuntime \<Rightarrow> world \<Rightarrow> (exn + unit) \<times> world" where
  "initialize rt w0 =
     (let w = w0\<lparr>console := console w0 @ [''Initializing ImageDescriptionService''],
                 service := (service w0)\<lparr>runtime := Some rt\<rparr>\<rparr>;
          AWS_ACCESS_KEY_ID = getSetting rt ''AWS_ACCESS_KEY_ID'';
          AWS_SECRET_ACCESS_KEY = getSetting rt ''AWS_SECRET_ACCESS_KEY'';
          AWS_REGION = getSetting rt ''AWS_REGION'';
          AWS_S3_BUCKET = getSetting rt ''AWS_S3_BUCKET''
      in if falsy AWS_ACCESS_KEY_ID \<or> falsy AWS_SECRET_ACCESS_KEY \<or>
            falsy AWS_REGION \<or> falsy AWS_S3_BUCKET
         then (Inl (Error ''Missing required AWS credentials in environment variables''), w)
         else (Inr (),
               w\<lparr>service := (service w)
                   \<lparr>s3Client := Some \<lparr>region = the AWS_REGION,
                                      accessKeyId = the AWS_ACCESS_KEY_ID,
                                      secretAccessKey = the AWS_SECRET_ACCESS_KEY\<rparr>,
                    fileUploadPath := Some (nullish (getSetting rt ''AWS_S3_UPLOAD_PATH'') []),
                    bucket := AWS_S3_BUCKET\<rparr>\<rparr>))"

subsection \<open>getContentType\<close>

definition contentTypes :: "(string \<times> string) list" where
  "contentTypes =
     [(''.png'', ''image/png''),
      (''.jpg'', ''image/jpeg''),
      (''.jpeg'', ''image/jpeg''),
      (''.gif'', ''image/gif''),
      (''.webp'', ''image/webp'')]"

text \<open>\<open>contentTypes[ext] || "application/octet-stream"\<close>. The lookup is among the
  table's own keys: \<open>path.extname\<close> returns the empty string or a string that starts
  with a dot, which no inherited property is named.\<close>

definition getContentType :: "env \<Rightarrow> string \<Rightarrow> string" where
  "getContentType e filePath =
     (let ext = toLowerCase (extname e filePath)
      in logical_or (map_of contentTypes ext) ''application/octet-stream'')"

subsection \<open>uploadFile\<close>

text \<open>\<open>await m\<close> followed by the rest of the block: when the promise rejects, the
  thrown value leaves the block at once; otherwise the rest runs on the resolved value.\<close>

definition await ::
  "(world \<Rightarrow> (exn + 'a) \<times> world) \<Rightarrow> ('a \<Rightarrow> world \<Rightarrow> (exn + 'b) \<times> world)
     \<Rightarrow> world \<Rightarrow> (exn + 'b) \<times> world" where
  "await m rest w = (case m w of (Inl x, w1) \<Rightarrow> (Inl x, w1) | (Inr a, w1) \<Rightarrow> rest a w1)"

text \<open>The message a \<open>catch\<close> block reports:
  \<open>error instanceof Error ? error.message : "Unknown error occurred"\<close>.\<close>

definition error_message :: "exn \<Rightarrow> string" where
  "error_message x = (case x of Error m \<Rightarrow> m | NonError \<Rightarrow> ''Unknown error occurred'')"

text \<open>The body of the \<open>try\<close> block, with the defaults of the parameters filled in.\<close>

definition uploadFile_try ::
  "env \<Rightarrow> string \<Rightarrow> bool \<Rightarrow> int \<Rightarrow> world \<Rightarrow> (exn + UploadResult) \<times> world" where
  "uploadFile_try e filePath useSignedUrl expiresIn w =
     (if \<not> existsSync e filePath
      then (Inr \<lparr>success = False, url = None, error = Some ''File does not exist''\<rparr>, w)
      else
        case readFileSync e filePath of
          Inl x \<Rightarrow> (Inl x, w)
        | Inr fileContent \<Rightarrow>
            (let baseFileName = string_of_nat (Date_now e) @ ''-'' @ basename e filePath;
                 fileName = replaceAll ''//'' ''/''
                              (interpolate (fileUploadPath (service w)) @ ''/'' @ baseFileName);
                 uploadParams = PutObjectCommand (bucket (service w)) fileName
                                  (BufferBody fileContent) (getContentType e filePath)
             in await (s3Client_send e uploadParams)
                  (\<lambda>_ w1.
                     if \<not> useSignedUrl
                     then (Inr \<lparr>success = True,
                                url = Some (''https://'' @ interpolate (bucket (service w1)) @
                                            ''.s3.'' @ interpolate (process_env_AWS_REGION e) @
                                            ''.amazonaws.com/'' @ fileName),
                                error = None\<rparr>, w1)
                     else
                       await (getSignedUrl e (GetObjectCommand (bucket (service w1)) fileName)
                                expiresIn)
                         (\<lambda>signedUrl w2.
                            (Inr \<lparr>success = True, url = Some signedUrl, error = None\<rparr>, w2))
                         w1)
                  w))"

definition uploadFile ::
  "env \<Rightarrow> string \<Rightarrow> bool option \<Rightarrow> int option \<Rightarrow> world \<Rightarrow> (exn + UploadResult) \<times> world" where
  "uploadFile e filePath useSignedUrl expiresIn w =
     (case uploadFile_try e filePath (case useSignedUrl of None \<Rightarrow> False | Some b \<Rightarrow> b)
             (case expiresIn of None \<Rightarrow> 900 | Some n \<Rightarrow> n) w of
        (Inr result, w1) \<Rightarrow> (Inr result, w1)
      | (Inl x, w1) \<Rightarrow>
          (Inr \<lparr>success = False, url = None, error = Some (error_message x)\<rparr>, w1))"

subsection \<open>generateSignedUrl\<close>

definition generateSignedUrl ::
  "env \<Rightarrow> string \<Rightarrow> int option \<Rightarrow> world \<Rightarrow> (exn + string) \<times> world" where
  "generateSignedUrl e fileName expiresIn w =
     (let command = GetObjectCommand (bucket (service w)) fileName
      in getSignedUrl e command (case expiresIn of None \<Rightarrow> 900 | Some n \<Rightarrow> n) w)"

subsection \<open>uploadJson\<close>

definition uploadJson_try ::
  "env \<Rightarrow> jsvalue \<Rightarrow> string option \<Rightarrow> string option \<Rightarrow> bool \<Rightarrow> int \<Rightarrow> world
     \<Rightarrow> (exn + JsonUploadResult) \<times> world" where
  "uploadJson_try e jsonData fileName subDirectory useSignedUrl expiresIn w =
     (if \<not> ToBoolean jsonData
      then (Inr \<lparr>success = False, url = None, error = Some ''JSON data is required'',
                 key = None\<rparr>, w)
      else
        (let timestamp = Date_now e;
             actualFileName = logical_or fileName (string_of_nat timestamp @ ''.json'');
             fullPath0 = logical_or (fileUploadPath (service w)) [];
             fullPath = (if falsy subDirectory then fullPath0
                         else replace_slash_runs (fullPath0 @ ''/'' @ the subDirectory));
             key = replace_slash_runs (fullPath @ ''/'' @ actualFileName)
         in case JSON_stringify e jsonData 2 of
              Inl x \<Rightarrow> (Inl x, w)
            | Inr jsonString \<Rightarrow>
                (let uploadParams = PutObjectCommand (bucket (service w)) key
                                      (case jsonString of None \<Rightarrow> UndefinedBody
                                                        | Some s \<Rightarrow> StringBody s)
                                      ''application/json''
                 in await (s3Client_send e uploadParams)
                      (\<lambda>_ w1.
                         if \<not> useSignedUrl
                         then (Inr \<lparr>success = True,
                                    url = Some (''https://'' @ interpolate (bucket (service w1)) @
                                                ''.s3.'' @
                                                interpolate (process_env_AWS_REGION e) @
                                                ''.amazonaws.com/'' @ key),
                                    error = None, key = Some key\<rparr>, w1)
                         else
                           await (getSignedUrl e (GetObjectCommand (bucket (service w1)) key)
                                    expiresIn)
                             (\<lambda>signedUrl w2.
                                (Inr \<lparr>success = True, url = Some signedUrl, error = None,
                                       key = Some key\<rparr>, w2))
                             w1)
                      w)))"

definition uploadJson ::
  "env \<Rightarrow> jsvalue \<Rightarrow> string option \<Rightarrow> string option \<Rightarrow> bool option \<Rightarrow> int option \<Rightarrow> world
     \<Rightarrow> (exn + JsonUploadResult) \<times> world" where
  "uploadJson e jsonData fileName subDirectory useSignedUrl expiresIn w =
     (case uploadJson_try e jsonData fileName subDirectory
             (case useSignedUrl of None \<Rightarrow> False | Some b \<Rightarrow> b)
             (case expiresIn of None \<Rightarrow> 900 | Some n \<Rightarrow> n) w of
        (Inr result, w1) \<Rightarrow> (Inr result, w1)
      | (Inl x, w1) \<Rightarrow>
          (Inr \<lparr>success = False, url = None, error = Some (error_message x), key = None\<rparr>,
           w1))"

subsection \<open>A concrete platform\<close>

text \<open>\<open>path.basename\<close> and \<open>path.extname\<close> as Node.js computes them on POSIX: trailing
  slashes are dropped and the last component is taken; its extension starts at its last
  dot, unless there is no dot, the last dot is the component's first character, or the
  component is \<open>..\<close>.\<close>

definition posix_basename :: "string \<Rightarrow> string" where
  "posix_basename p =
     rev (takeWhile (\<lambda>c. c \<noteq> CHR ''/'') (dropWhile (\<lambda>c. c = CHR ''/'') (rev p)))"

definition posix_extname :: "string \<Rightarrow> string" where
  "posix_extname p =
     (let name = posix_basename p;
          after = takeWhile (\<lambda>c. c \<noteq> CHR ''.'') (rev name);
          upto = dropWhile (\<lambda>c. c \<noteq> CHR ''.'') (rev name)
      in if upto = [] \<or> tl upto = [] \<or> name = ''..'' then []
         else CHR ''.'' # rev after)"

text \<open>The object \<open>{a: 1}\<close> and its serialization with an indentation of two spaces.
  The serializer of the examples knows this object only; as \<open>JSON.stringify\<close> does, it
  throws a TypeError on a BigInt and returns \<open>undefined\<close> for a function, a symbol
  and \<open>undefined\<close>.\<close>

definition json_a1 :: jsvalue where
  "json_a1 = JObject [(''a'', JNumber (Finite 1))]"

definition json_a1_pretty :: string where
  "json_a1_pretty =
     ''{'' @ [CHR 0x0A] @ ''  '' @ [CHR 0x22] @ ''a'' @ [CHR 0x22] @ '': 1'' @ [CHR 0x0A] @ ''}''"

definition stringify0 :: "jsvalue \<Rightarrow> nat \<Rightarrow> exn + string option" where
  "stringify0 v indent =
     (if v = json_a1 \<and> indent = 2 then Inr (Some json_a1_pretty)
      else case v of
             JBigInt i \<Rightarrow> Inl (Error ''Do not know how to serialize a BigInt'')
           | JFunction \<Rightarrow> Inr None
           | JSymbol \<Rightarrow> Inr None
           | JUndefined \<Rightarrow> Inr None
           | _ \<Rightarrow> Inl (Error ''not serialized in this example''))"

text \<open>A platform on which \<open>a/b/photo.PNG\<close> is the only file, the backend accepts every
  request, and \<open>process.env\<close> has no \<open>AWS_REGION\<close>.\<close>

definition env0 :: env where
  "env0 =
     \<lparr>existsSync = (\<lambda>p. p = ''a/b/photo.PNG''),
      readFileSync = (\<lambda>p. if p = ''a/b/photo.PNG'' then Inr [0x89, 0x50, 0x4E, 0x47]
                           else Inl (Error ''ENOENT: no such file or directory'')),
      basename = posix_basename,
      extname = posix_extname,
      Date_now = 1700000000000,
      JSON_stringify = stringify0,
      process_env_AWS_REGION = None,
      send_response = (\<lambda>client cmd. None),
      getSignedUrl_response = (\<lambda>client cmd expiresIn. Inr ''https://signed.example/object'')\<rparr>"




text \<open>A runtime whose settings are a table.\<close>

definition runtime_of :: "(string \<times> string) list \<Rightarrow> IAgentRuntime" where
  "runtime_of settings = \<lparr>getSetting = map_of settings\<rparr>"

definition settings0 :: "(string \<times> string) list" where
  "settings0 =
     [(''AWS_ACCESS_KEY_ID'', ''AKIAEXAMPLE''),
      (''AWS_SECRET_ACCESS_KEY'', ''secret''),
      (''AWS_REGION'', ''us-east-1''),
      (''AWS_S3_BUCKET'', ''my-bucket''),
      (''AWS_S3_UPLOAD_PATH'', ''uploads/'')]"

definition settings_double_slash :: "(string \<times> string) list" where
  "settings_double_slash = (''AWS_S3_UPLOAD_PATH'', ''uploads//'') # settings0"

text \<open>A fresh instance, and the instance after \<open>initialize\<close> with each table.\<close>

definition world0 :: world where
  "world0 =
     \<lparr>service = \<lparr>s3Client = None, bucket = None, fileUploadPath = None, runtime = None\<rparr>,
      calls = [], console = []\<rparr>"

definition world1 :: world where
  "world1 = snd (initialize (runtime_of settings0) world0)"

definition world_double_slash :: world where
  "world_double_slash = snd (initialize (runtime_of settings_double_slash) world0)"

section \<open>Properties\<close>

subsection \<open>Decimal digits and slash runs\<close>

lemma string_of_nat_numeral:
  "string_of_nat (numeral k) =
     (if (numeral k :: nat) < 10 then [digit (numeral k)]
      else string_of_nat (numeral k div 10) @ [digit (numeral k mod 10)])"
  by (rule string_of_nat.simps)

lemma string_of_nat_small:
  "string_of_nat 0 = ''0''" "string_of_nat (Suc 0) = ''1''"
  by (simp_all add: string_of_nat.simps digit_def)






subsection \<open>What a call leaves unchanged\<close>

lemma s3Client_send_service: "service (snd (s3Client_send e cmd w)) = service w"
  by (simp add: s3Client_send_def Let_def split: option.split)

lemma getSignedUrl_service: "service (snd (getSignedUrl e cmd n w)) = service w"
  by (simp add: getSignedUrl_def)

lemma await_service:
  assumes "service (snd (m w)) = service w"
    and "\<And>a w1. service w1 = service w \<Longrightarrow> service (snd (rest a w1)) = service w"
  shows "service (snd (await m rest w)) = service w"
proof (cases "m w")
  case (Pair r w1)
  with assms(1) have "service w1 = service w" by simp
  with Pair assms(2) show ?thesis by (cases r) (simp_all add: await_def)
qed

lemma uploadFile_try_service: "service (snd (uploadFile_try e p u x w)) = service w"
  unfolding uploadFile_try_def Let_def
  by (simp add: await_service s3Client_send_service getSignedUrl_service split: sum.split)

lemma uploadJson_try_service: "service (snd (uploadJson_try e d f s u x w)) = service w"
  unfolding uploadJson_try_def Let_def
  by (simp add: await_service s3Client_send_service getSignedUrl_service split: sum.split)

lemma catch_keeps_service:
  "service (snd (case r of (Inr result, w1) \<Rightarrow> (Inr result, w1) | (Inl x, w1) \<Rightarrow> (Inr (h x), w1)))
     = service (snd r)"
  by (cases r) (simp split: sum.split)

subsection \<open>Exceptions inside the try blocks\<close>

lemma s3Client_send_client:
  "s3Client (service w) = Some client \<Longrightarrow>
     s3Client_send e cmd w =
       (case send_response e client cmd of Some x \<Rightarrow> Inl x | None \<Rightarrow> Inr (),
        w\<lparr>calls := calls w @ [Send client cmd]\<rparr>)"
  by (simp add: s3Client_send_def Let_def split: option.split)












subsection \<open>The key of a JSON upload\<close>



subsection \<open>The concrete platform evaluated\<close>

lemma env0_simps:
  "existsSync env0 = (\<lambda>p. p = ''a/b/photo.PNG'')"
  "readFileSync env0 = (\<lambda>p. if p = ''a/b/photo.PNG'' then Inr [0x89, 0x50, 0x4E, 0x47]
                               else Inl (Error ''ENOENT: no such file or directory''))"
  "basename env0 = posix_basename"
  "extname env0 = posix_extname"
  "Date_now env0 = 1700000000000"
  "JSON_stringify env0 = stringify0"
  "process_env_AWS_REGION env0 = None"
  "send_response env0 = (\<lambda>client cmd. None)"
  "getSignedUrl_response env0 = (\<lambda>client cmd expiresIn. Inr ''https://signed.example/object'')"
  by (simp_all add: env0_def)


lemma timestamp0: "string_of_nat 1700000000000 = ''1700000000000''"
  by (simp add: string_of_nat_numeral string_of_nat_small digit_def)

lemma lower_case_examples:
  "toLowerCase ''.PNG'' = ''.png''" "toLowerCase ''.JpEg'' = ''.jpeg''"
  "toLowerCase ''.xyz'' = ''.xyz''" "toLowerCase [] = []"
  by (simp_all add: toLowerCase_def toLowerCase_unit_def char_of_def bit_Suc_0_iff)

lemma posix_examples:
  "posix_basename ''a/b/photo.PNG'' = ''photo.PNG''"
  "posix_extname ''a/b/photo.PNG'' = ''.PNG''"
  "posix_extname ''pic.JpEg'' = ''.JpEg''"
  "posix_extname ''notes.xyz'' = ''.xyz''"
  "posix_extname ''README'' = []"
  by (simp_all add: posix_extname_def posix_basename_def)

lemma initialize_settings0:
  "initialize (runtime_of settings0) world0 =
     (Inr (),
      \<lparr>service =
         \<lparr>s3Client = Some \<lparr>region = ''us-east-1'', accessKeyId = ''AKIAEXAMPLE'',
                            secretAccessKey = ''secret''\<rparr>,
          bucket = Some ''my-bucket'',
          fileUploadPath = Some ''uploads/'',
          runtime = Some (runtime_of settings0)\<rparr>,
       calls = [],
       console = [''Initializing ImageDescriptionService'']\<rparr>)"
  by (simp add: initialize_def runtime_of_def settings0_def world0_def falsy_def nullish_def)

lemma world1_eq:
  "world1 =
      \<lparr>service =
         \<lparr>s3Client = Some \<lparr>region = ''us-east-1'', accessKeyId = ''AKIAEXAMPLE'',
                            secretAccessKey = ''secret''\<rparr>,
          bucket = Some ''my-bucket'',
          fileUploadPath = Some ''uploads/'',
          runtime = Some (runtime_of settings0)\<rparr>,
       calls = [],
       console = [''Initializing ImageDescriptionService'']\<rparr>"
  by (simp add: world1_def initialize_settings0)

lemma world_double_slash_eq:
  "world_double_slash =
      \<lparr>service =
         \<lparr>s3Client = Some \<lparr>region = ''us-east-1'', accessKeyId = ''AKIAEXAMPLE'',
                            secretAccessKey = ''secret''\<rparr>,
          bucket = Some ''my-bucket'',
          fileUploadPath = Some ''uploads//'',
          runtime = Some (runtime_of settings_double_slash)\<rparr>,
       calls = [],
       console = [''Initializing ImageDescriptionService'']\<rparr>"
  by (simp add: world_double_slash_def initialize_def runtime_of_def settings_double_slash_def
        settings0_def world0_def falsy_def nullish_def)

lemma getContentType_photo: "getContentType env0 ''a/b/photo.PNG'' = ''image/png''"
  by (simp add: getContentType_def env0_simps posix_examples lower_case_examples contentTypes_def
        logical_or_def falsy_def)

lemmas call_simps =
  uploadFile_def uploadFile_try_def uploadJson_def uploadJson_try_def await_def
  s3Client_send_def getSignedUrl_def interpolate_def error_message_def logical_or_def falsy_def
  Let_def

subsection \<open>The first request of an upload\<close>

lemma uploadFile_first_request:
  assumes "existsSync e filePath \<and> readFileSync e filePath = Inr content \<and>
           s3Client (service w) = Some client"
  shows "\<exists>objectKey rest.
           calls (snd (uploadFile e filePath useSignedUrl expiresIn w)) =
             calls w @ Send client (PutObjectCommand (bucket (service w)) objectKey
                                      (BufferBody content) (getContentType e filePath)) # rest"
proof -
  define signedFlag where "signedFlag = (case useSignedUrl of None \<Rightarrow> False | Some b \<Rightarrow> b)"
  define expiry where "expiry = (case expiresIn of None \<Rightarrow> (900::int) | Some n \<Rightarrow> n)"
  define objectKey where
    "objectKey = replaceAll ''//'' ''/''
                   (interpolate (fileUploadPath (service w)) @ ''/'' @
                    string_of_nat (Date_now e) @ ''-'' @ basename e filePath)"
  define put where
    "put = PutObjectCommand (bucket (service w)) objectKey (BufferBody content)
             (getContentType e filePath)"
  define w1 where "w1 = w\<lparr>calls := calls w @ [Send client put]\<rparr>"
  define get where "get = GetObjectCommand (bucket (service w)) objectKey"
  from assms have client: "s3Client (service w) = Some client" by simp
  have send: "s3Client_send e put w =
                (case send_response e client put of Some x \<Rightarrow> Inl x | None \<Rightarrow> Inr (), w1)"
    unfolding w1_def by (rule s3Client_send_client[OF client])
  have sign: "snd (getSignedUrl e get expiry w1) =
                w\<lparr>calls := calls w @ Send client put # [GetSignedUrl (Some client) get expiry]\<rparr>"
    by (simp add: getSignedUrl_def w1_def client)
  have svc1: "service w1 = service w" by (simp add: w1_def)
  have try_eq: "uploadFile_try e filePath signedFlag expiry w =
      await (s3Client_send e put)
        (\<lambda>_ w1.
           if \<not> signedFlag
           then (Inr \<lparr>success = True,
                      url = Some (''https://'' @ interpolate (bucket (service w1)) @ ''.s3.'' @
                                  interpolate (process_env_AWS_REGION e) @
                                  ''.amazonaws.com/'' @ objectKey),
                      error = None\<rparr>, w1)
           else await (getSignedUrl e (GetObjectCommand (bucket (service w1)) objectKey) expiry)
                  (\<lambda>signedUrl w2.
                     (Inr \<lparr>success = True, url = Some signedUrl, error = None\<rparr>, w2))
                  w1)
        w"
    using assms unfolding uploadFile_try_def Let_def put_def objectKey_def by simp
  have "calls (snd (uploadFile e filePath useSignedUrl expiresIn w)) = calls w @ [Send client put] \<or>
        calls (snd (uploadFile e filePath useSignedUrl expiresIn w)) =
          calls w @ Send client put # [GetSignedUrl (Some client) get expiry]"
  proof (cases "send_response e client put")
    case (Some exc)
    then show ?thesis
      unfolding uploadFile_def signedFlag_def[symmetric] expiry_def[symmetric] try_eq
      by (simp add: await_def send w1_def)
  next
    case None
    show ?thesis
    proof (cases signedFlag)
      case False
      with None show ?thesis
        unfolding uploadFile_def signedFlag_def[symmetric] expiry_def[symmetric] try_eq
        by (simp add: await_def send w1_def)
    next
      case True
      obtain r w2 where g: "getSignedUrl e get expiry w1 = (r, w2)"
        by (cases "getSignedUrl e get expiry w1")
      with sign have w2: "w2 = w\<lparr>calls := calls w @ Send client put # [GetSignedUrl (Some client) get expiry]\<rparr>"
        by simp
      from None True g show ?thesis
        unfolding uploadFile_def signedFlag_def[symmetric] expiry_def[symmetric] try_eq
        by (cases r) (simp_all add: await_def send svc1 get_def[symmetric] w2)
    qed
  qed
  then show ?thesis unfolding put_def by auto
qed

section \<open>The claims\<close>

text \<open>Claim C1. With \<open>useSignedUrl\<close> false, a successful \<open>uploadFile\<close> or \<open>uploadJson\<close>
  on a service initialized with bucket B and region R from the settings is said to return
  \<open>https://B.s3.R.amazonaws.com/K\<close>. The code takes the region of the URL from
  \<open>process.env.AWS_REGION\<close> instead: with the settings' region \<open>us-east-1\<close> and no such
  environment variable, both methods return a URL whose region is \<open>undefined\<close>.\<close>

theorem public_url_region_comes_from_process_env:
  "getSetting (runtime_of settings0) ''AWS_REGION'' = Some ''us-east-1'' \<and>
   initialize (runtime_of settings0) world0 = (Inr (), world1) \<and>
   bucket (service world1) = Some ''my-bucket'' \<and>
   process_env_AWS_REGION env0 = None \<and>
   fst (uploadFile env0 ''a/b/photo.PNG'' (Some False) None world1) =
     Inr \<lparr>success = True,
          url = Some ''https://my-bucket.s3.undefined.amazonaws.com/uploads/1700000000000-photo.PNG'',
          error = None\<rparr> \<and>
   fst (uploadJson env0 json_a1 (Some ''x.json'') None (Some False) None world1) =
     Inr \<lparr>success = True,
          url = Some ''https://my-bucket.s3.undefined.amazonaws.com/uploads/x.json'',
          error = None, key = Some ''uploads/x.json''\<rparr>"
proof (intro conjI)
  show "getSetting (runtime_of settings0) ''AWS_REGION'' = Some ''us-east-1''"
    by (simp add: runtime_of_def settings0_def)
  show "initialize (runtime_of settings0) world0 = (Inr (), world1)"
    by (simp add: world1_def initialize_settings0)
  show "bucket (service world1) = Some ''my-bucket''"
    by (simp add: world1_eq)
  show "process_env_AWS_REGION env0 = None"
    by (simp add: env0_simps)
  show "fst (uploadFile env0 ''a/b/photo.PNG'' (Some False) None world1) =
     Inr \<lparr>success = True,
          url = Some ''https://my-bucket.s3.undefined.amazonaws.com/uploads/1700000000000-photo.PNG'',
          error = None\<rparr>"
    unfolding world1_eq
    by (simp add: call_simps env0_simps posix_examples timestamp0 getContentType_photo)
  show "fst (uploadJson env0 json_a1 (Some ''x.json'') None (Some False) None world1) =
     Inr \<lparr>success = True,
          url = Some ''https://my-bucket.s3.undefined.amazonaws.com/uploads/x.json'',
          error = None, key = Some ''uploads/x.json''\<rparr>"
    unfolding world1_eq
    by (simp add: call_simps env0_simps stringify0_def json_a1_def)
qed

text \<open>Claim C2. The storage key of \<open>uploadFile\<close> and of \<open>uploadJson\<close> is said to contain
  no two consecutive slashes. \<open>uploadFile\<close> replaces each pair of slashes by one slash in
  a single pass, so a run of three slashes leaves two: with the upload path \<open>uploads//\<close>
  the object is stored under \<open>uploads//1700000000000-photo.PNG\<close>, while \<open>uploadJson\<close>
  on the same instance stores under \<open>uploads/x.json\<close>.\<close>

theorem uploadFile_key_keeps_double_slash:
  "fileUploadPath (service world_double_slash) = Some ''uploads//'' \<and>
   uploadFile env0 ''a/b/photo.PNG'' None None world_double_slash =
     (Inr \<lparr>success = True,
           url = Some ''https://my-bucket.s3.undefined.amazonaws.com/uploads//1700000000000-photo.PNG'',
           error = None\<rparr>,
      world_double_slash
        \<lparr>calls := [Send \<lparr>region = ''us-east-1'', accessKeyId = ''AKIAEXAMPLE'',
                           secretAccessKey = ''secret''\<rparr>
                      (PutObjectCommand (Some ''my-bucket'') ''uploads//1700000000000-photo.PNG''
                         (BufferBody [0x89, 0x50, 0x4E, 0x47]) ''image/png'')]\<rparr>) \<and>
   fst (uploadJson env0 json_a1 (Some ''x.json'') None None None world_double_slash) =
     Inr \<lparr>success = True,
          url = Some ''https://my-bucket.s3.undefined.amazonaws.com/uploads/x.json'',
          error = None, key = Some ''uploads/x.json''\<rparr>"
proof (intro conjI)
  show "fileUploadPath (service world_double_slash) = Some ''uploads//''"
    by (simp add: world_double_slash_eq)
  show "uploadFile env0 ''a/b/photo.PNG'' None None world_double_slash =
     (Inr \<lparr>success = True,
           url = Some ''https://my-bucket.s3.undefined.amazonaws.com/uploads//1700000000000-photo.PNG'',
           error = None\<rparr>,
      world_double_slash
        \<lparr>calls := [Send \<lparr>region = ''us-east-1'', accessKeyId = ''AKIAEXAMPLE'',
                           secretAccessKey = ''secret''\<rparr>
                      (PutObjectCommand (Some ''my-bucket'') ''uploads//1700000000000-photo.PNG''
                         (BufferBody [0x89, 0x50, 0x4E, 0x47]) ''image/png'')]\<rparr>)"
    unfolding world_double_slash_eq
    by (simp add: call_simps env0_simps posix_examples timestamp0 getContentType_photo)
  show "fst (uploadJson env0 json_a1 (Some ''x.json'') None None None world_double_slash) =
     Inr \<lparr>success = True,
          url = Some ''https://my-bucket.s3.undefined.amazonaws.com/uploads/x.json'',
          error = None, key = Some ''uploads/x.json''\<rparr>"
    unfolding world_double_slash_eq
    by (simp add: call_simps env0_simps stringify0_def json_a1_def)
qed




text \<open>Claim C4. \<open>initialize\<close> succeeds and stores the configuration (the client bound
  to the region and the credentials, the bucket, the upload path) exactly when the four
  settings \<open>AWS_ACCESS_KEY_ID\<close>, \<open>AWS_SECRET_ACCESS_KEY\<close>, \<open>AWS_REGION\<close> and
  \<open>AWS_S3_BUCKET\<close> are present and non-empty; when one of them is missing or empty it
  throws, and none of the three is stored.\<close>

theorem initialize_requires_four_settings:
  "(fst (initialize rt w) = Inr ()) =
     (\<forall>k \<in> {''AWS_ACCESS_KEY_ID'', ''AWS_SECRET_ACCESS_KEY'', ''AWS_REGION'', ''AWS_S3_BUCKET''}.
        \<exists>v. getSetting rt k = Some v \<and> v \<noteq> []) \<and>
   (getSetting rt ''AWS_ACCESS_KEY_ID'' = Some accessKey \<and> accessKey \<noteq> [] \<and>
    getSetting rt ''AWS_SECRET_ACCESS_KEY'' = Some secretKey \<and> secretKey \<noteq> [] \<and>
    getSetting rt ''AWS_REGION'' = Some awsRegion \<and> awsRegion \<noteq> [] \<and>
    getSetting rt ''AWS_S3_BUCKET'' = Some bucketName \<and> bucketName \<noteq> [] \<longrightarrow>
      initialize rt w =
        (Inr (),
         \<lparr>service =
            \<lparr>s3Client = Some \<lparr>region = awsRegion, accessKeyId = accessKey,
                               secretAccessKey = secretKey\<rparr>,
             bucket = Some bucketName,
             fileUploadPath =
               Some (case getSetting rt ''AWS_S3_UPLOAD_PATH'' of None \<Rightarrow> [] | Some p \<Rightarrow> p),
             runtime = Some rt\<rparr>,
          calls = calls w,
          console = console w @ [''Initializing ImageDescriptionService'']\<rparr>)) \<and>
   ((\<exists>k \<in> {''AWS_ACCESS_KEY_ID'', ''AWS_SECRET_ACCESS_KEY'', ''AWS_REGION'', ''AWS_S3_BUCKET''}.
        getSetting rt k = None \<or> getSetting rt k = Some []) \<longrightarrow>
      fst (initialize rt w) =
        Inl (Error ''Missing required AWS credentials in environment variables'') \<and>
      s3Client (service (snd (initialize rt w))) = s3Client (service w) \<and>
      bucket (service (snd (initialize rt w))) = bucket (service w) \<and>
      fileUploadPath (service (snd (initialize rt w))) = fileUploadPath (service w))"
proof (intro conjI impI)
  have present: "(\<not> falsy x) = (\<exists>v. x = Some v \<and> v \<noteq> [])" for x
    by (cases x) (simp_all add: falsy_def)
  have "(fst (initialize rt w) = Inr ()) =
          (\<not> falsy (getSetting rt ''AWS_ACCESS_KEY_ID'') \<and>
           \<not> falsy (getSetting rt ''AWS_SECRET_ACCESS_KEY'') \<and>
           \<not> falsy (getSetting rt ''AWS_REGION'') \<and>
           \<not> falsy (getSetting rt ''AWS_S3_BUCKET''))"
    by (simp add: initialize_def Let_def)
  then show "(fst (initialize rt w) = Inr ()) =
     (\<forall>k \<in> {''AWS_ACCESS_KEY_ID'', ''AWS_SECRET_ACCESS_KEY'', ''AWS_REGION'', ''AWS_S3_BUCKET''}.
        \<exists>v. getSetting rt k = Some v \<and> v \<noteq> [])"
    by (simp add: present)
next
  assume "getSetting rt ''AWS_ACCESS_KEY_ID'' = Some accessKey \<and> accessKey \<noteq> [] \<and>
    getSetting rt ''AWS_SECRET_ACCESS_KEY'' = Some secretKey \<and> secretKey \<noteq> [] \<and>
    getSetting rt ''AWS_REGION'' = Some awsRegion \<and> awsRegion \<noteq> [] \<and>
    getSetting rt ''AWS_S3_BUCKET'' = Some bucketName \<and> bucketName \<noteq> []"
  then show "initialize rt w =
        (Inr (),
         \<lparr>service =
            \<lparr>s3Client = Some \<lparr>region = awsRegion, accessKeyId = accessKey,
                               secretAccessKey = secretKey\<rparr>,
             bucket = Some bucketName,
             fileUploadPath =
               Some (case getSetting rt ''AWS_S3_UPLOAD_PATH'' of None \<Rightarrow> [] | Some p \<Rightarrow> p),
             runtime = Some rt\<rparr>,
          calls = calls w,
          console = console w @ [''Initializing ImageDescriptionService'']\<rparr>)"
    by (simp add: initialize_def falsy_def nullish_def)
next
  assume "\<exists>k \<in> {''AWS_ACCESS_KEY_ID'', ''AWS_SECRET_ACCESS_KEY'', ''AWS_REGION'', ''AWS_S3_BUCKET''}.
        getSetting rt k = None \<or> getSetting rt k = Some []"
  then have missing: "falsy (getSetting rt ''AWS_ACCESS_KEY_ID'') \<or>
     falsy (getSetting rt ''AWS_SECRET_ACCESS_KEY'') \<or>
     falsy (getSetting rt ''AWS_REGION'') \<or> falsy (getSetting rt ''AWS_S3_BUCKET'')"
    by (auto simp: falsy_def)
  then show "fst (initialize rt w) =
        Inl (Error ''Missing required AWS credentials in environment variables'')"
    by (simp add: initialize_def)
  from missing show "s3Client (service (snd (initialize rt w))) = s3Client (service w)"
    by (simp add: initialize_def)
  from missing show "bucket (service (snd (initialize rt w))) = bucket (service w)"
    by (simp add: initialize_def)
  from missing show "fileUploadPath (service (snd (initialize rt w))) = fileUploadPath (service w)"
    by (simp add: initialize_def)
qed


theorem initialize_requires_four_settings_witness:
  "initialize (runtime_of settings0) world0 =
     (Inr (),
      \<lparr>service =
         \<lparr>s3Client = Some \<lparr>region = ''us-east-1'', accessKeyId = ''AKIAEXAMPLE'',
                            secretAccessKey = ''secret''\<rparr>,
          bucket = Some ''my-bucket'',
          fileUploadPath = Some ''uploads/'',
          runtime = Some (runtime_of settings0)\<rparr>,
       calls = [],
       console = [''Initializing ImageDescriptionService'']\<rparr>) \<and>
   fst (initialize (runtime_of [(''AWS_ACCESS_KEY_ID'', ''AKIAEXAMPLE''),
                                (''AWS_SECRET_ACCESS_KEY'', ''secret''),
                                (''AWS_REGION'', []),
                                (''AWS_S3_BUCKET'', ''my-bucket'')]) world0) =
     Inl (Error ''Missing required AWS credentials in environment variables'') \<and>
   fst (initialize (runtime_of [(''AWS_ACCESS_KEY_ID'', ''AKIAEXAMPLE''),
                                (''AWS_SECRET_ACCESS_KEY'', ''secret''),
                                (''AWS_REGION'', ''us-east-1'')]) world0) =
     Inl (Error ''Missing required AWS credentials in environment variables'')"
  using initialize_requires_four_settings
          [where rt = "runtime_of settings0" and w = world0 and accessKey = "''AKIAEXAMPLE''"
             and secretKey = "''secret''" and awsRegion = "''us-east-1''"
             and bucketName = "''my-bucket''"]
        initialize_requires_four_settings
          [where rt = "runtime_of [(''AWS_ACCESS_KEY_ID'', ''AKIAEXAMPLE''),
                                   (''AWS_SECRET_ACCESS_KEY'', ''secret''),
                                   (''AWS_REGION'', []),
                                   (''AWS_S3_BUCKET'', ''my-bucket'')]" and w = world0]
        initialize_requires_four_settings
          [where rt = "runtime_of [(''AWS_ACCESS_KEY_ID'', ''AKIAEXAMPLE''),
                                   (''AWS_SECRET_ACCESS_KEY'', ''secret''),
                                   (''AWS_REGION'', ''us-east-1'')]" and w = world0]
  by (simp add: runtime_of_def settings0_def world0_def)

text \<open>Claim C5. For every path that does not reference an existing local file,
  \<open>uploadFile\<close> returns \<open>{success: false, error: "File does not exist"}\<close>; it does not
  throw, and it issues no backend call: the instance, the requests and the console are as
  they were.\<close>

theorem uploadFile_nonexistent_path:
  "\<not> existsSync e filePath \<Longrightarrow>
     uploadFile e filePath useSignedUrl expiresIn w =
       (Inr \<lparr>success = False, url = None, error = Some ''File does not exist''\<rparr>, w)"
  by (simp add: uploadFile_def uploadFile_try_def)

theorem uploadFile_nonexistent_path_witness:
  "\<not> existsSync env0 ''missing.png'' \<and>
   uploadFile env0 ''missing.png'' None None world1 =
     (Inr \<lparr>success = False, url = None, error = Some ''File does not exist''\<rparr>, world1)"
  using uploadFile_nonexistent_path[of env0 "''missing.png''" None None world1]
  by (simp add: env0_def)





text \<open>Claim C7. \<open>uploadJson\<close> called with \<open>null\<close> or \<open>undefined\<close> as \<open>jsonData\<close> returns
  \<open>{success: false, error: "JSON data is required"}\<close> without calling the backend: the
  instance, the requests and the console are as they were.\<close>

theorem uploadJson_null_or_undefined:
  "uploadJson e JNull fileName subDirectory useSignedUrl expiresIn w =
     (Inr \<lparr>success = False, url = None, error = Some ''JSON data is required'', key = None\<rparr>, w) \<and>
   uploadJson e JUndefined fileName subDirectory useSignedUrl expiresIn w =
     (Inr \<lparr>success = False, url = None, error = Some ''JSON data is required'', key = None\<rparr>, w)"
  by (simp add: uploadJson_def uploadJson_try_def)

text \<open>Claim C8. \<open>uploadFile\<close> infers the content type from the lower-cased extension of
  the path by the table \<open>.png\<close> to \<open>image/png\<close>, \<open>.jpg\<close> and \<open>.jpeg\<close> to \<open>image/jpeg\<close>,
  \<open>.gif\<close> to \<open>image/gif\<close>, \<open>.webp\<close> to \<open>image/webp\<close>; every other extension, and no
  extension, gives \<open>application/octet-stream\<close>. This is the content type of the
  PutObject request.\<close>

theorem getContentType_by_extension:
  "(toLowerCase (extname e filePath) = ''.png'' \<longrightarrow>
      getContentType e filePath = ''image/png'') \<and>
   (toLowerCase (extname e filePath) \<in> {''.jpg'', ''.jpeg''} \<longrightarrow>
      getContentType e filePath = ''image/jpeg'') \<and>
   (toLowerCase (extname e filePath) = ''.gif'' \<longrightarrow>
      getContentType e filePath = ''image/gif'') \<and>
   (toLowerCase (extname e filePath) = ''.webp'' \<longrightarrow>
      getContentType e filePath = ''image/webp'') \<and>
   (toLowerCase (extname e filePath) \<notin> {''.png'', ''.jpg'', ''.jpeg'', ''.gif'', ''.webp''} \<longrightarrow>
      getContentType e filePath = ''application/octet-stream'') \<and>
   (existsSync e filePath \<and> readFileSync e filePath = Inr content \<and>
    s3Client (service w) = Some client \<longrightarrow>
      (\<exists>objectKey rest.
         calls (snd (uploadFile e filePath useSignedUrl expiresIn w)) =
           calls w @ Send client (PutObjectCommand (bucket (service w)) objectKey
                                    (BufferBody content) (getContentType e filePath)) # rest))"
proof (intro conjI impI)
  show "getContentType e filePath = ''image/png''"
    if "toLowerCase (extname e filePath) = ''.png''"
    using that by (simp add: getContentType_def contentTypes_def logical_or_def falsy_def)
  show "getContentType e filePath = ''image/jpeg''"
    if "toLowerCase (extname e filePath) \<in> {''.jpg'', ''.jpeg''}"
    using that by (auto simp: getContentType_def contentTypes_def logical_or_def falsy_def)
  show "getContentType e filePath = ''image/gif''"
    if "toLowerCase (extname e filePath) = ''.gif''"
    using that by (simp add: getContentType_def contentTypes_def logical_or_def falsy_def)
  show "getContentType e filePath = ''image/webp''"
    if "toLowerCase (extname e filePath) = ''.webp''"
    using that by (simp add: getContentType_def contentTypes_def logical_or_def falsy_def)
  show "getContentType e filePath = ''application/octet-stream''"
    if "toLowerCase (extname e filePath) \<notin> {''.png'', ''.jpg'', ''.jpeg'', ''.gif'', ''.webp''}"
    using that by (simp add: getContentType_def contentTypes_def logical_or_def falsy_def)
  show "\<exists>objectKey rest.
         calls (snd (uploadFile e filePath useSignedUrl expiresIn w)) =
           calls w @ Send client (PutObjectCommand (bucket (service w)) objectKey
                                    (BufferBody content) (getContentType e filePath)) # rest"
    if "existsSync e filePath \<and> readFileSync e filePath = Inr content \<and>
        s3Client (service w) = Some client"
    using that by (rule uploadFile_first_request)
qed

theorem getContentType_by_extension_witness:
  "getContentType env0 ''a/b/photo.PNG'' = ''image/png'' \<and>
   getContentType env0 ''pic.JpEg'' = ''image/jpeg'' \<and>
   getContentType env0 ''notes.xyz'' = ''application/octet-stream'' \<and>
   getContentType env0 ''README'' = ''application/octet-stream'' \<and>
   (\<exists>objectKey rest.
      calls (snd (uploadFile env0 ''a/b/photo.PNG'' None None world1)) =
        Send \<lparr>region = ''us-east-1'', accessKeyId = ''AKIAEXAMPLE'', secretAccessKey = ''secret''\<rparr>
          (PutObjectCommand (Some ''my-bucket'') objectKey (BufferBody [0x89, 0x50, 0x4E, 0x47])
             ''image/png'') # rest)"
proof -
  note table = getContentType_by_extension
  have png: "getContentType env0 ''a/b/photo.PNG'' = ''image/png''"
    using table[where e = env0 and filePath = "''a/b/photo.PNG''"]
    by (simp add: env0_simps posix_examples lower_case_examples)
  have jpeg: "getContentType env0 ''pic.JpEg'' = ''image/jpeg''"
    using table[where e = env0 and filePath = "''pic.JpEg''"]
    by (simp add: env0_simps posix_examples lower_case_examples)
  have xyz: "getContentType env0 ''notes.xyz'' = ''application/octet-stream''"
    using table[where e = env0 and filePath = "''notes.xyz''"]
    by (simp add: env0_simps posix_examples lower_case_examples)
  have none: "getContentType env0 ''README'' = ''application/octet-stream''"
    using table[where e = env0 and filePath = "''README''"]
    by (simp add: env0_simps posix_examples lower_case_examples)
  have sent: "\<exists>objectKey rest.
      calls (snd (uploadFile env0 ''a/b/photo.PNG'' None None world1)) =
        Send \<lparr>region = ''us-east-1'', accessKeyId = ''AKIAEXAMPLE'', secretAccessKey = ''secret''\<rparr>
          (PutObjectCommand (Some ''my-bucket'') objectKey (BufferBody [0x89, 0x50, 0x4E, 0x47])
             ''image/png'') # rest"
    using table[where e = env0 and filePath = "''a/b/photo.PNG''" and w = world1
                  and content = "[0x89, 0x50, 0x4E, 0x47]" and useSignedUrl = None
                  and expiresIn = None
                  and client = "\<lparr>region = ''us-east-1'', accessKeyId = ''AKIAEXAMPLE'',
                                 secretAccessKey = ''secret''\<rparr>"]
    by (simp add: env0_simps png world1_eq)
  from png jpeg xyz none sent show ?thesis by blast
qed

text \<open>Claim C9. No operation modifies the stored configuration: after \<open>uploadFile\<close>,
  \<open>uploadJson\<close> and \<open>generateSignedUrl\<close>, whether they succeed or fail, the fields
  \<open>s3Client\<close>, \<open>bucket\<close>, \<open>fileUploadPath\<close> and \<open>runtime\<close> of the instance are what they
  were before the call.\<close>

theorem operations_preserve_configuration:
  "service (snd (uploadFile e filePath useSignedUrl expiresIn w)) = service w \<and>
   service (snd (uploadJson e jsonData fileName subDirectory useSignedUrl expiresIn w)) = service w \<and>
   service (snd (generateSignedUrl e objectKey expiresIn w)) = service w"
proof (intro conjI)
  show "service (snd (uploadFile e filePath useSignedUrl expiresIn w)) = service w"
    unfolding uploadFile_def by (simp only: catch_keeps_service uploadFile_try_service)
  show "service (snd (uploadJson e jsonData fileName subDirectory useSignedUrl expiresIn w)) = service w"
    unfolding uploadJson_def by (simp only: catch_keeps_service uploadJson_try_service)
  show "service (snd (generateSignedUrl e objectKey expiresIn w)) = service w"
    by (simp add: generateSignedUrl_def getSignedUrl_service)
qed

text \<open>Claim C10. \<open>uploadJson\<close> rejects every falsy \<open>jsonData\<close>: not only \<open>null\<close> and
  \<open>undefined\<close> but also 0, -0, \<open>false\<close>, NaN and the empty string give
  \<open>{success: false, error: "JSON data is required"}\<close> with no backend call.\<close>

theorem uploadJson_rejects_falsy:
  "(\<not> ToBoolean jsonData \<longrightarrow>
      uploadJson e jsonData fileName subDirectory useSignedUrl expiresIn w =
        (Inr \<lparr>success = False, url = None, error = Some ''JSON data is required'', key = None\<rparr>,
         w)) \<and>
   \<not> ToBoolean JNull \<and> \<not> ToBoolean JUndefined \<and>
   \<not> ToBoolean (JNumber (Finite 0)) \<and> \<not> ToBoolean (JNumber MinusZero) \<and>
   \<not> ToBoolean (JBoolean False) \<and> \<not> ToBoolean (JNumber NaN) \<and> \<not> ToBoolean (JString [])"
  by (simp add: uploadJson_def uploadJson_try_def)

theorem uploadJson_rejects_falsy_witness:
  "uploadJson env0 (JNumber (Finite 0)) None None None None world1 =
     (Inr \<lparr>success = False, url = None, error = Some ''JSON data is required'', key = None\<rparr>,
      world1) \<and>
   uploadJson env0 (JBoolean False) (Some ''flag.json'') None None None world1 =
     (Inr \<lparr>success = False, url = None, error = Some ''JSON data is required'', key = None\<rparr>,
      world1) \<and>
   uploadJson env0 (JNumber NaN) None (Some ''data'') None None world1 =
     (Inr \<lparr>success = False, url = None, error = Some ''JSON data is required'', key = None\<rparr>,
      world1) \<and>
   uploadJson env0 (JString []) None None (Some True) None world1 =
     (Inr \<lparr>success = False, url = None, error = Some ''JSON data is required'', key = None\<rparr>,
      world1)"
  using uploadJson_rejects_falsy[of "JNumber (Finite 0)" env0 None None None None world1]
        uploadJson_rejects_falsy[of "JBoolean False" env0 "Some ''flag.json''" None None None world1]
        uploadJson_rejects_falsy[of "JNumber NaN" env0 None "Some ''data''" None None world1]
        uploadJson_rejects_falsy[of "JString []" env0 None None "Some True" None world1]
  by simp


end
